theory Spec2Isabelle
  imports Main "HOL-Library.Word"
begin

unbundle bit_operations_syntax

section \<open>Python values, exceptions and built-ins\<close>

text \<open>
  The module \<^verbatim>\<open>0x02-redis_basic/exercise.py\<close> talks to a Redis server through the
  redis-py client. The values it handles are the scalars of the annotation
  \<^verbatim>\<open>Union[str, bytes, int, float]\<close> and \<^verbatim>\<open>None\<close>.

  Representation. A \<^verbatim>\<open>bytes\<close> object is the list of its bytes. A \<^verbatim>\<open>str\<close> is
  carried as the list of its UTF-8 code units, so that \<^verbatim>\<open>s.encode("utf-8")\<close> is the
  identity and \<^verbatim>\<open>b.decode("utf-8")\<close> is the identity on well-formed UTF-8 and raises
  elsewhere (text holding lone surrogates has no UTF-8 form and is outside the model).
  A \<^verbatim>\<open>float\<close> is carried as its \<^verbatim>\<open>repr\<close>, the text the client sends for it.
\<close>

datatype error =
  AttributeError | TypeError | ValueError | UnicodeDecodeError | DataError | ResponseError

datatype pyval = PyNone | PyStr string | PyBytes string | PyInt int | PyFloat string

type_synonym kwargs = "(string \<times> pyval) list"

subsection \<open>Decimal rendering of integers\<close>

definition digit_char :: "nat \<Rightarrow> char" where
  "digit_char d = char_of (48 + d)"

function repr_nat :: "nat \<Rightarrow> string" where
  "repr_nat n = (if n < 10 then [digit_char n] else repr_nat (n div 10) @ [digit_char (n mod 10)])"
  by pat_completeness auto
termination
  by (relation "measure id") auto

declare repr_nat.simps [simp del]

text \<open>\<^verbatim>\<open>repr(n)\<close> for a Python int.\<close>

definition repr_int :: "int \<Rightarrow> string" where
  "repr_int i = (if i < 0 then CHR ''-'' # repr_nat (nat (- i)) else repr_nat (nat i))"

subsection \<open>\<^verbatim>\<open>bytes.decode("utf-8")\<close>\<close>

definition cont :: "nat \<Rightarrow> bool" where
  "cont b = (128 \<le> b \<and> b < 192)"

text \<open>Length of the well-formed UTF-8 sequence at the head of a byte list (RFC 3629:
  no overlong forms, no surrogates, nothing above U+10FFFF), or 0 when there is none.\<close>

fun utf8_head :: "nat list \<Rightarrow> nat" where
  "utf8_head [] = 0"
| "utf8_head (a # bs) =
    (if a < 128 then 1
     else if 194 \<le> a \<and> a < 224 then
       (case bs of b # _ \<Rightarrow> if cont b then 2 else 0 | _ \<Rightarrow> 0)
     else if 224 \<le> a \<and> a < 240 then
       (case bs of b # c # _ \<Rightarrow>
          if (if a = 224 then 160 \<le> b \<and> b < 192
              else if a = 237 then 128 \<le> b \<and> b < 160
              else cont b) \<and> cont c then 3 else 0
        | _ \<Rightarrow> 0)
     else if 240 \<le> a \<and> a < 245 then
       (case bs of b # c # d # _ \<Rightarrow>
          if (if a = 240 then 144 \<le> b \<and> b < 192
              else if a = 244 then 128 \<le> b \<and> b < 144
              else cont b) \<and> cont c \<and> cont d then 4 else 0
        | _ \<Rightarrow> 0)
     else 0)"

function valid_utf8 :: "nat list \<Rightarrow> bool" where
  "valid_utf8 bs =
     (if bs = [] then True
      else if utf8_head bs = 0 then False
      else valid_utf8 (drop (utf8_head bs) bs))"
  by pat_completeness auto
termination
  by (relation "measure length") auto

declare valid_utf8.simps [simp del]

definition decode :: "string \<Rightarrow> error + string" where
  "decode b = (if valid_utf8 (map of_char b) then Inr b else Inl UnicodeDecodeError)"

subsection \<open>\<^verbatim>\<open>int(b)\<close> on bytes\<close>

definition py_isspace :: "char \<Rightarrow> bool" where
  "py_isspace c = (c \<in> set [CHR '' '', CHR 0x09, CHR 0x0A, CHR 0x0B, CHR 0x0C, CHR 0x0D])"

definition is_digit :: "char \<Rightarrow> bool" where
  "is_digit c = (48 \<le> (of_char c :: nat) \<and> (of_char c :: nat) \<le> 57)"

definition digit_val :: "char \<Rightarrow> nat" where
  "digit_val c = of_char c - 48"

text \<open>Digits with single underscores between them, read left to right into the
  accumulator; the flag says that the previous character was a digit.\<close>

fun py_digits :: "string \<Rightarrow> bool \<Rightarrow> nat \<Rightarrow> nat option" where
  "py_digits [] prev acc = (if prev then Some acc else None)"
| "py_digits (c # cs) prev acc =
     (if is_digit c then py_digits cs True (10 * acc + digit_val c)
      else if c = CHR ''_'' \<and> prev then py_digits cs False acc
      else None)"

text \<open>\<^verbatim>\<open>int(b)\<close>, base 10: surrounding ASCII whitespace, an optional sign, then digits.
  (The interpreter's configurable cap on the number of digits is not modelled.)\<close>

definition py_int :: "string \<Rightarrow> error + int" where
  "py_int b =
     (let s = rev (dropWhile py_isspace (rev (dropWhile py_isspace b))) in
      case s of
        [] \<Rightarrow> Inl ValueError
      | c # cs \<Rightarrow>
          if c = CHR ''-'' then
            (case py_digits cs False 0 of None \<Rightarrow> Inl ValueError | Some n \<Rightarrow> Inr (- int n))
          else if c = CHR ''+'' then
            (case py_digits cs False 0 of None \<Rightarrow> Inl ValueError | Some n \<Rightarrow> Inr (int n))
          else
            (case py_digits s False 0 of None \<Rightarrow> Inl ValueError | Some n \<Rightarrow> Inr (int n)))"

subsection \<open>\<^verbatim>\<open>str\<close> of an argument tuple and of a result\<close>

text \<open>\<^verbatim>\<open>repr\<close> of a scalar is the interpreter's (quoting and escaping of text depend on
  its Unicode tables); it is the parameter \<open>rp\<close> below. \<^verbatim>\<open>str\<close> of a tuple is built
  from the \<^verbatim>\<open>repr\<close> of its items; \<^verbatim>\<open>str\<close> of a \<^verbatim>\<open>str\<close> is the text itself and
  \<^verbatim>\<open>str\<close> of any other scalar is its \<^verbatim>\<open>repr\<close>.\<close>

fun join :: "string \<Rightarrow> string list \<Rightarrow> string" where
  "join sep [] = []"
| "join sep [x] = x"
| "join sep (x # y # ys) = x @ sep @ join sep (y # ys)"

definition str_tuple :: "(pyval \<Rightarrow> string) \<Rightarrow> pyval list \<Rightarrow> string" where
  "str_tuple rp args =
     (case args of
        [x] \<Rightarrow> ''('' @ rp x @ '',)''
      | _ \<Rightarrow> ''('' @ join '', '' (map rp args) @ '')'')"

definition py_str :: "(pyval \<Rightarrow> string) \<Rightarrow> pyval \<Rightarrow> string" where
  "py_str rp v = (case v of PyStr s \<Rightarrow> s | _ \<Rightarrow> rp v)"

section \<open>The Redis server and its client\<close>

text \<open>
  The world outside the module: the keyspace of the one Redis server every client
  connects to, the commands it has received (oldest first), the lines printed so far, and
  the random source behind \<^verbatim>\<open>uuid.uuid4()\<close> (its draws, and how many were taken).
\<close>

datatype entry = RString string | RList "string list"

datatype command =
  FLUSHDB | SET string string | GET string | INCR string | RPUSH string string
  | LRANGE string int int

record world =
  db :: "string \<rightharpoonup> entry"
  trace :: "command list"
  stdout :: "string list"
  entropy :: "nat \<Rightarrow> 128 word"
  drawn :: nat

definition sent :: "command \<Rightarrow> world \<Rightarrow> world" where
  "sent c w = w\<lparr>trace := trace w @ [c]\<rparr>"

text \<open>The client's encoder: what goes on the wire for a Python value.\<close>

fun encode :: "pyval \<Rightarrow> error + string" where
  "encode (PyBytes b) = Inr b"
| "encode (PyInt n) = Inr (repr_int n)"
| "encode (PyFloat f) = Inr f"
| "encode (PyStr s) = Inr s"
| "encode PyNone = Inl DataError"

definition redis_flushdb :: "world \<Rightarrow> (error + bool) \<times> world" where
  "redis_flushdb w = (Inr True, (sent FLUSHDB w)\<lparr>db := Map.empty\<rparr>)"

definition redis_set :: "string \<Rightarrow> pyval \<Rightarrow> world \<Rightarrow> (error + bool) \<times> world" where
  "redis_set k v w =
     (case encode v of
        Inl e \<Rightarrow> (Inl e, w)
      | Inr b \<Rightarrow> (Inr True, (sent (SET k b) w)\<lparr>db := (db w)(k \<mapsto> RString b)\<rparr>))"

definition redis_get :: "string \<Rightarrow> world \<Rightarrow> (error + string option) \<times> world" where
  "redis_get k w =
     (case db w k of
        None \<Rightarrow> (Inr None, sent (GET k) w)
      | Some (RString b) \<Rightarrow> (Inr (Some b), sent (GET k) w)
      | Some (RList _) \<Rightarrow> (Inl ResponseError, sent (GET k) w))"

text \<open>The server reads a counter strictly: an optional minus sign and digits with no
  leading zero, within 64 signed bits.\<close>

definition string2ll :: "string \<Rightarrow> int option" where
  "string2ll s =
     (let body = (case s of c # cs \<Rightarrow> if c = CHR ''-'' then cs else s | [] \<Rightarrow> s);
          neg = (body \<noteq> s) in
      if body = [] \<or> \<not> list_all is_digit body then None
      else if hd body = CHR ''0'' \<and> (neg \<or> length body > 1) then None
      else
        (let n = int (foldl (\<lambda>acc c. 10 * acc + digit_val c) 0 body);
             v = (if neg then - n else n) in
         if - (2 ^ 63) \<le> v \<and> v < 2 ^ 63 then Some v else None))"

definition redis_incr :: "string \<Rightarrow> world \<Rightarrow> (error + int) \<times> world" where
  "redis_incr k w =
     (case db w k of
        None \<Rightarrow> (Inr 1, (sent (INCR k) w)\<lparr>db := (db w)(k \<mapsto> RString (repr_int 1))\<rparr>)
      | Some (RList _) \<Rightarrow> (Inl ResponseError, sent (INCR k) w)
      | Some (RString b) \<Rightarrow>
          (case string2ll b of
             None \<Rightarrow> (Inl ResponseError, sent (INCR k) w)
           | Some n \<Rightarrow>
               if n = 2 ^ 63 - 1 then (Inl ResponseError, sent (INCR k) w)
               else (Inr (n + 1),
                     (sent (INCR k) w)\<lparr>db := (db w)(k \<mapsto> RString (repr_int (n + 1)))\<rparr>)))"

definition redis_rpush :: "string \<Rightarrow> pyval \<Rightarrow> world \<Rightarrow> (error + int) \<times> world" where
  "redis_rpush k v w =
     (case encode v of
        Inl e \<Rightarrow> (Inl e, w)
      | Inr b \<Rightarrow>
          (case db w k of
             None \<Rightarrow> (Inr 1, (sent (RPUSH k b) w)\<lparr>db := (db w)(k \<mapsto> RList [b])\<rparr>)
           | Some (RList xs) \<Rightarrow>
               (Inr (int (length xs) + 1),
                (sent (RPUSH k b) w)\<lparr>db := (db w)(k \<mapsto> RList (xs @ [b]))\<rparr>)
           | Some (RString _) \<Rightarrow> (Inl ResponseError, sent (RPUSH k b) w)))"

text \<open>The slice an \<^verbatim>\<open>LRANGE start stop\<close> selects: both ends inclusive, negative
  indices counted from the end.\<close>

definition lrange_slice :: "string list \<Rightarrow> int \<Rightarrow> int \<Rightarrow> string list" where
  "lrange_slice xs start stop =
     (let n = int (length xs);
          s = (if start < 0 then max 0 (n + start) else start);
          e = (if stop < 0 then n + stop else min stop (n - 1)) in
      if s > e \<or> s \<ge> n then [] else take (nat (e - s + 1)) (drop (nat s) xs))"

definition redis_lrange :: "string \<Rightarrow> int \<Rightarrow> int \<Rightarrow> world \<Rightarrow> (error + string list) \<times> world" where
  "redis_lrange k start stop w =
     (case db w k of
        None \<Rightarrow> (Inr [], sent (LRANGE k start stop) w)
      | Some (RList xs) \<Rightarrow> (Inr (lrange_slice xs start stop), sent (LRANGE k start stop) w)
      | Some (RString _) \<Rightarrow> (Inl ResponseError, sent (LRANGE k start stop) w))"

subsection \<open>\<^verbatim>\<open>str(uuid.uuid4())\<close>\<close>

definition hex_digit :: "nat \<Rightarrow> char" where
  "hex_digit d = (if d < 10 then char_of (48 + d) else char_of (87 + d))"

definition hex032 :: "128 word \<Rightarrow> string" where
  "hex032 x = map (\<lambda>k. hex_digit (unat (drop_bit (4 * k) x AND 15))) (rev [0..<32])"

definition str_uuid :: "128 word \<Rightarrow> string" where
  "str_uuid x =
     (let h = hex032 x in
      take 8 h @ ''-'' @ take 4 (drop 8 h) @ ''-'' @ take 4 (drop 12 h) @ ''-''
        @ take 4 (drop 16 h) @ ''-'' @ drop 20 h)"

text \<open>Sixteen random bytes with the variant and version (4) bits forced.\<close>

definition uuid4 :: "world \<Rightarrow> 128 word \<times> world" where
  "uuid4 w =
     (let r = entropy w (drawn w);
          i = (r AND NOT (push_bit 48 0xc000)) OR push_bit 48 0x8000;
          j = (i AND NOT (push_bit 64 0xf000)) OR push_bit 76 4
      in (j, w\<lparr>drawn := Suc (drawn w)\<rparr>))"

section \<open>The class \<^verbatim>\<open>Cache\<close>\<close>

datatype Redis = Redis

record Cache =
  redis :: Redis

text \<open>\<^verbatim>\<open>Cache.__init__\<close>: connect, then flush the database. The server is taken to
  be reachable: connection failures are not part of the model.\<close>

definition Cache_init :: "world \<Rightarrow> (error + Cache) \<times> world" where
  "Cache_init w =
     (case redis_flushdb w of
        (Inl e, w1) \<Rightarrow> (Inl e, w1)
      | (Inr _, w1) \<Rightarrow> (Inr \<lparr>redis = Redis\<rparr>, w1))"

text \<open>The function \<^verbatim>\<open>store(self, data)\<close> defined at lines 13 to 25.\<close>

definition store :: "Cache \<Rightarrow> pyval \<Rightarrow> world \<Rightarrow> (error + pyval) \<times> world" where
  "store self data w =
     (let (u, w1) = uuid4 w; key = str_uuid u in
      case redis_set key data w1 of
        (Inl e, w2) \<Rightarrow> (Inl e, w2)
      | (Inr _, w2) \<Rightarrow> (Inr (PyStr key), w2))"

text \<open>\<^verbatim>\<open>Cache.get\<close>. The client returns \<^verbatim>\<open>bytes\<close> or \<^verbatim>\<open>None\<close>; \<open>fn\<close> is the optional
  converter, which receives those bytes and may itself act on the world.\<close>

type_synonym converter = "string \<Rightarrow> world \<Rightarrow> (error + pyval) \<times> world"

definition get :: "Cache \<Rightarrow> string \<Rightarrow> converter option \<Rightarrow> world \<Rightarrow> (error + pyval) \<times> world" where
  "get self key fn w =
     (case redis_get key w of
        (Inl e, w1) \<Rightarrow> (Inl e, w1)
      | (Inr data, w1) \<Rightarrow>
          (case (data, fn) of
             (Some d, Some f) \<Rightarrow> f d w1
           | (Some d, None) \<Rightarrow> (Inr (PyBytes d), w1)
           | (None, _) \<Rightarrow> (Inr PyNone, w1)))"

definition get_str :: "Cache \<Rightarrow> string \<Rightarrow> world \<Rightarrow> (error + pyval) \<times> world" where
  "get_str self key w =
     get self key
       (Some (\<lambda>d w'. (case decode d of Inl e \<Rightarrow> Inl e | Inr s \<Rightarrow> Inr (PyStr s), w'))) w"

definition get_int :: "Cache \<Rightarrow> string \<Rightarrow> world \<Rightarrow> (error + pyval) \<times> world" where
  "get_int self key w =
     get self key
       (Some (\<lambda>d w'. (case py_int d of Inl e \<Rightarrow> Inl e | Inr n \<Rightarrow> Inr (PyInt n), w'))) w"

section \<open>Callables and the decorators\<close>

text \<open>
  A callable object as the decorators and \<^verbatim>\<open>replay\<close> see it. \<open>Function q f\<close> is a
  function (or a wrapper that \<^verbatim>\<open>functools.wraps\<close> has given the attributes of one)
  with \<^verbatim>\<open>__qualname__\<close> \<open>q\<close>, called as \<^verbatim>\<open>f(self, *args, **kwargs)\<close>.
  \<open>WrapsPartial g\<close> is what \<^verbatim>\<open>functools.wraps(g)\<close> returns, the object
  \<^verbatim>\<open>partial(update_wrapper, wrapped=g, ...)\<close>: it waits for the wrapper to update, and
  a \<^verbatim>\<open>partial\<close> object has no \<^verbatim>\<open>__qualname__\<close>.
\<close>

type_synonym pyfun = "Cache \<Rightarrow> pyval list \<Rightarrow> kwargs \<Rightarrow> world \<Rightarrow> (error + pyval) \<times> world"

datatype callable = Function string pyfun | WrapsPartial callable

fun qualname :: "callable \<Rightarrow> error + string" where
  "qualname (Function q f) = Inr q"
| "qualname (WrapsPartial g) = Inl AttributeError"

text \<open>\<^verbatim>\<open>functools.wraps\<close> used as the decorator itself, \<^verbatim>\<open>@functools.wraps\<close>.\<close>

definition functools_wraps :: "callable \<Rightarrow> callable" where
  "functools_wraps g = WrapsPartial g"

text \<open>Binding \<^verbatim>\<open>(*args, **kwargs)\<close> to the one parameter \<^verbatim>\<open>data\<close> after \<^verbatim>\<open>self\<close>.\<close>

definition bind_data :: "pyval list \<Rightarrow> kwargs \<Rightarrow> error + pyval" where
  "bind_data args kw =
     (case (args, kw) of
        ([v], []) \<Rightarrow> Inr v
      | ([], [(k, v)]) \<Rightarrow> if k = ''data'' then Inr v else Inl TypeError
      | _ \<Rightarrow> Inl TypeError)"

definition store_apply :: pyfun where
  "store_apply self args kw w =
     (case bind_data args kw of Inl e \<Rightarrow> (Inl e, w) | Inr data \<Rightarrow> store self data w)"

definition store_function :: callable where
  "store_function = Function ''Cache.store'' store_apply"

text \<open>The attribute \<^verbatim>\<open>store\<close> of the class body, lines 12 to 25: the function under the
  decorator \<^verbatim>\<open>@functools.wraps\<close>.\<close>

definition Cache_store :: callable where
  "Cache_store = functools_wraps store_function"

text \<open>\<^verbatim>\<open>count_calls\<close>: the key is read from the method when the decorator runs; the
  wrapper increments, then calls.\<close>

definition count_calls_wrapper :: "string \<Rightarrow> pyfun \<Rightarrow> pyfun" where
  "count_calls_wrapper key method self args kw w =
     (case redis_incr key w of
        (Inl e, w1) \<Rightarrow> (Inl e, w1)
      | (Inr _, w1) \<Rightarrow> method self args kw w1)"

fun count_calls :: "callable \<Rightarrow> error + callable" where
  "count_calls (Function key method) = Inr (Function key (count_calls_wrapper key method))"
| "count_calls (WrapsPartial g) = Inl AttributeError"

text \<open>\<^verbatim>\<open>call_history\<close>: push \<^verbatim>\<open>str(args)\<close>, call, push \<^verbatim>\<open>str(output)\<close>.\<close>

definition call_history_wrapper :: "(pyval \<Rightarrow> string) \<Rightarrow> string \<Rightarrow> pyfun \<Rightarrow> pyfun" where
  "call_history_wrapper rp key method self args kw w =
     (case redis_rpush (key @ '':inputs'') (PyStr (str_tuple rp args)) w of
        (Inl e, w1) \<Rightarrow> (Inl e, w1)
      | (Inr _, w1) \<Rightarrow>
          (case method self args kw w1 of
             (Inl e, w2) \<Rightarrow> (Inl e, w2)
           | (Inr output, w2) \<Rightarrow>
               (case redis_rpush (key @ '':outputs'') (PyStr (py_str rp output)) w2 of
                  (Inl e, w3) \<Rightarrow> (Inl e, w3)
                | (Inr _, w3) \<Rightarrow> (Inr output, w3))))"

fun call_history :: "(pyval \<Rightarrow> string) \<Rightarrow> callable \<Rightarrow> error + callable" where
  "call_history rp (Function key method) =
     Inr (Function key (call_history_wrapper rp key method))"
| "call_history rp (WrapsPartial g) = Inl AttributeError"

text \<open>The two module-level assignments, lines 86 and 87, on the class as declared:
  the value bound to \<^verbatim>\<open>Cache.store\<close> once the module has loaded, or the exception that
  stops the load.\<close>

definition exercise_module :: "(pyval \<Rightarrow> string) \<Rightarrow> error + callable" where
  "exercise_module rp =
     (case count_calls Cache_store of
        Inl e \<Rightarrow> Inl e
      | Inr counted \<Rightarrow> call_history rp counted)"

text \<open>The call \<^verbatim>\<open>cache.attr(*args)\<close> with positional arguments, for an attribute found
  in the class. A function is bound to the instance. A \<^verbatim>\<open>partial\<close> object is not: it
  is called with the arguments alone, as \<^verbatim>\<open>update_wrapper(*args, wrapped=g, ...)\<close>,
  which needs exactly one positional argument and then sets attributes on it; a scalar
  accepts none.\<close>

fun call_attr :: "callable \<Rightarrow> Cache \<Rightarrow> pyval list \<Rightarrow> world \<Rightarrow> (error + pyval) \<times> world" where
  "call_attr (Function q f) self args w = f self args [] w"
| "call_attr (WrapsPartial g) self args w =
     (if length args = 1 then (Inl AttributeError, w) else (Inl TypeError, w))"

section \<open>\<^verbatim>\<open>replay\<close>\<close>

definition print :: "string \<Rightarrow> world \<Rightarrow> world" where
  "print line w = w\<lparr>stdout := stdout w @ [line]\<rparr>"

fun replay_loop :: "string \<Rightarrow> (string \<times> string) list \<Rightarrow> world \<Rightarrow> (error + unit) \<times> world" where
  "replay_loop key [] w = (Inr (), w)"
| "replay_loop key ((input_val, output_val) # rest) w =
     (case decode input_val of
        Inl e \<Rightarrow> (Inl e, w)
      | Inr i \<Rightarrow>
          (case decode output_val of
             Inl e \<Rightarrow> (Inl e, w)
           | Inr out \<Rightarrow> replay_loop key rest (print (key @ ''(*'' @ i @ '') -> '' @ out) w)))"

fun replay :: "callable \<Rightarrow> world \<Rightarrow> (error + unit) \<times> world" where
  "replay (Function key f) w =
     (case redis_lrange (key @ '':inputs'') 0 (- 1) w of
        (Inl e, w1) \<Rightarrow> (Inl e, w1)
      | (Inr inputs, w1) \<Rightarrow>
          (case redis_lrange (key @ '':outputs'') 0 (- 1) w1 of
             (Inl e, w2) \<Rightarrow> (Inl e, w2)
           | (Inr outputs, w2) \<Rightarrow>
               replay_loop key (zip inputs outputs)
                 (print (key @ '' was called '' @ repr_nat (length inputs) @ '' times:'') w2)))"
| "replay (WrapsPartial g) w = (Inl AttributeError, w)"

section \<open>Auxiliary notions for the statements\<close>

text \<open>What a key holds when read as a list: an absent key reads as the empty list, a key
  holding a string cannot be read as a list.\<close>

definition stored_list :: "world \<Rightarrow> string \<Rightarrow> string list option" where
  "stored_list w k =
     (case db w k of None \<Rightarrow> Some [] | Some (RList xs) \<Rightarrow> Some xs | Some (RString _) \<Rightarrow> None)"

text \<open>The transcript lines the loop of \<^verbatim>\<open>replay\<close> gets to print: it stops at the first
  pair that does not decode.\<close>

fun printed :: "string \<Rightarrow> (string \<times> string) list \<Rightarrow> string list" where
  "printed key [] = []"
| "printed key ((i, out) # rest) =
     (if valid_utf8 (map of_char i) \<and> valid_utf8 (map of_char out)
      then (key @ ''(*'' @ i @ '') -> '' @ out) # printed key rest else [])"

definition digits_value :: "string \<Rightarrow> nat" where
  "digits_value s = foldl (\<lambda>acc c. 10 * acc + digit_val c) 0 s"

subsection \<open>The decorators applied to the function itself\<close>

text \<open>What the assignments of lines 86 and 87 build when they are given the function
  \<^verbatim>\<open>store\<close> of lines 13 to 25 rather than the attribute the class body binds:
  history logging around counting around the function.\<close>

definition instrumented :: "(pyval \<Rightarrow> string) \<Rightarrow> error + callable" where
  "instrumented rp =
     (case count_calls store_function of
        Inl e \<Rightarrow> Inl e
      | Inr counted \<Rightarrow> call_history rp counted)"

definition instrumented_call :: "(pyval \<Rightarrow> string) \<Rightarrow> pyfun" where
  "instrumented_call rp =
     call_history_wrapper rp ''Cache.store'' (count_calls_wrapper ''Cache.store'' store_apply)"

text \<open>The calls \<^verbatim>\<open>h(self, v)\<close> for the values of a list, one after the other.\<close>

fun run_calls :: "pyfun \<Rightarrow> Cache \<Rightarrow> pyval list \<Rightarrow> world \<Rightarrow> (error + pyval) list \<times> world" where
  "run_calls h self [] w = ([], w)"
| "run_calls h self (v # vs) w =
     (let (r, w1) = h self [v] [] w; (rs, w2) = run_calls h self vs w1 in (r # rs, w2))"

text \<open>The counter of \<^verbatim>\<open>Cache.store\<close> reads \<open>m\<close>; it does not exist before the first
  increment.\<close>

definition counter_is :: "world \<Rightarrow> nat \<Rightarrow> bool" where
  "counter_is w m =
     (db w ''Cache.store'' = (if m = 0 then None else Some (RString (repr_nat m))))"

subsection \<open>Concrete worlds and a concrete method\<close>

definition world0 :: world where
  "world0 = \<lparr>db = Map.empty, trace = [], stdout = [], entropy = (\<lambda>_. 0), drawn = 0\<rparr>"

definition world_logged :: world where
  "world_logged =
     \<lparr>db = [''Cache.store'' \<mapsto> RString ''5'',
            ''Cache.store:inputs'' \<mapsto> RList [''(1,)'', ''(2,)''],
            ''Cache.store:outputs'' \<mapsto> RList [''k1'']],
      trace = [], stdout = [], entropy = (\<lambda>_. 0), drawn = 0\<rparr>"

definition idle_method :: pyfun where
  "idle_method = (\<lambda>self args kw w. (Inr PyNone, w))"

section \<open>Basic facts\<close>

lemma sent_simps [simp]:
  "db (sent c w) = db w" "trace (sent c w) = trace w @ [c]" "stdout (sent c w) = stdout w"
  "entropy (sent c w) = entropy w" "drawn (sent c w) = drawn w"
  by (simp_all add: sent_def)

lemma print_simps [simp]:
  "db (print l w) = db w" "trace (print l w) = trace w" "stdout (print l w) = stdout w @ [l]"
  "entropy (print l w) = entropy w" "drawn (print l w) = drawn w"
  by (simp_all add: print_def)

lemma stored_list_sent [simp]: "stored_list (sent c w) k = stored_list w k"
  by (simp add: stored_list_def)

lemma lrange_slice_all: "lrange_slice xs 0 (- 1) = xs"
  by (cases xs) (simp_all add: lrange_slice_def Let_def)

lemma redis_lrange_all:
  "stored_list w k = Some xs \<Longrightarrow> redis_lrange k 0 (- 1) w = (Inr xs, sent (LRANGE k 0 (- 1)) w)"
  by (auto simp: stored_list_def redis_lrange_def lrange_slice_all split: option.splits entry.splits)

lemma redis_rpush_list:
  "stored_list w k = Some xs \<Longrightarrow>
   redis_rpush k (PyStr s) w =
     (Inr (int (length xs) + 1), (sent (RPUSH k s) w)\<lparr>db := (db w)(k \<mapsto> RList (xs @ [s]))\<rparr>)"
  by (auto simp: stored_list_def redis_rpush_def split: option.splits entry.splits)

subsection \<open>Decimal rendering is injective\<close>

lemma digit_val_digit_char: "d < 10 \<Longrightarrow> digit_val (digit_char d) = d"
  by (simp add: digit_val_def digit_char_def)

lemma is_digit_digit_char: "d < 10 \<Longrightarrow> is_digit (digit_char d)"
  by (simp add: is_digit_def digit_char_def)

lemma digits_value_repr_nat: "digits_value (repr_nat n) = n"
proof (induction n rule: repr_nat.induct)
  case (1 n)
  show ?case
  proof (cases "n < 10")
    case True
    then show ?thesis
      by (subst repr_nat.simps) (simp add: digits_value_def digit_val_digit_char)
  next
    case False
    with 1 have "digits_value (repr_nat (n div 10)) = n div 10" by simp
    with False show ?thesis
      by (subst repr_nat.simps) (simp add: digits_value_def digit_val_digit_char)
  qed
qed

lemma repr_nat_inj: "repr_nat a = repr_nat b \<longleftrightarrow> a = b"
  by (metis digits_value_repr_nat)

lemma repr_nat_0: "repr_nat 0 = ''0''"
  by code_simp

lemma repr_nat_2: "repr_nat (Suc (Suc 0)) = ''2''"
  by code_simp

subsection \<open>What \<^verbatim>\<open>replay\<close> prints\<close>

lemma replay_loop_stdout:
  "stdout (snd (replay_loop key ps w)) = stdout w @ printed key ps"
  by (induction key ps w rule: replay_loop.induct) (auto simp: decode_def)

lemma replay_loop_db: "db (snd (replay_loop key ps w)) = db w"
  by (induction key ps w rule: replay_loop.induct) (auto simp: decode_def)

lemma printed_valid:
  "\<forall>p \<in> set ps. valid_utf8 (map of_char (fst p)) \<and> valid_utf8 (map of_char (snd p)) \<Longrightarrow>
   printed key ps = map (\<lambda>(i, out). key @ ''(*'' @ i @ '') -> '' @ out) ps"
  by (induction ps) auto

lemma replay_loop_valid:
  "\<forall>p \<in> set ps. valid_utf8 (map of_char (fst p)) \<and> valid_utf8 (map of_char (snd p)) \<Longrightarrow>
   fst (replay_loop key ps w) = Inr ()"
  by (induction key ps w rule: replay_loop.induct) (auto simp: decode_def)

lemma replay_stdout:
  assumes "stored_list w (key @ '':inputs'') = Some ins"
      and "stored_list w (key @ '':outputs'') = Some outs"
  shows "stdout (snd (replay (Function key f) w)) =
           stdout w @ (key @ '' was called '' @ repr_nat (length ins) @ '' times:'')
             # printed key (zip ins outs)"
  using assms by (simp add: redis_lrange_all replay_loop_stdout)

lemma replay_result:
  assumes "stored_list w (key @ '':inputs'') = Some ins"
      and "stored_list w (key @ '':outputs'') = Some outs"
      and "\<forall>p \<in> set (zip ins outs).
             valid_utf8 (map of_char (fst p)) \<and> valid_utf8 (map of_char (snd p))"
  shows "fst (replay (Function key f) w) = Inr ()"
  using assms by (simp add: redis_lrange_all replay_loop_valid)

lemma replay_db:
  assumes "stored_list w (key @ '':inputs'') = Some ins"
      and "stored_list w (key @ '':outputs'') = Some outs"
  shows "db (snd (replay (Function key f) w)) = db w"
  using assms by (simp add: redis_lrange_all replay_loop_db)

section \<open>The function \<^verbatim>\<open>store\<close> and its instrumentation\<close>

text \<open>
  The facts of this section are about the function \<^verbatim>\<open>store\<close> and about the two
  decorators applied to that function. They say what the module is written to do; the
  class attribute \<^verbatim>\<open>Cache.store\<close> is a different object, see the claims below.
\<close>


lemma length_str_uuid: "length (str_uuid x) = 36"
  by (simp add: str_uuid_def hex032_def Let_def)

lemma str_uuid_neq: "length s \<noteq> 36 \<Longrightarrow> str_uuid x \<noteq> s"
  using length_str_uuid by metis

lemma encode_scalar: "v \<noteq> PyNone \<Longrightarrow> \<exists>b. encode v = Inr b"
  by (cases v) simp_all

lemma store_result:
  assumes "encode data = Inr b"
  shows "store self data w =
           (Inr (PyStr (str_uuid (fst (uuid4 w)))),
            w\<lparr>drawn := Suc (drawn w),
              trace := trace w @ [SET (str_uuid (fst (uuid4 w))) b],
              db := (db w)(str_uuid (fst (uuid4 w)) \<mapsto> RString b)\<rparr>)"
  using assms by (simp add: store_def uuid4_def redis_set_def Let_def sent_def)

lemma repr_nat_digits: "list_all is_digit (repr_nat n)"
proof (induction n rule: repr_nat.induct)
  case (1 n)
  show ?case
  proof (cases "n < 10")
    case True
    then show ?thesis by (subst repr_nat.simps) (simp add: is_digit_digit_char)
  next
    case False
    with 1 show ?thesis by (subst repr_nat.simps) (simp add: is_digit_digit_char)
  qed
qed

lemma repr_nat_nonempty: "repr_nat n \<noteq> []"
  by (subst repr_nat.simps) simp

lemma py_digits_run:
  "list_all is_digit ds \<Longrightarrow>
   py_digits (ds @ rest) p acc =
     (if ds = [] then py_digits rest p acc
      else py_digits rest True (foldl (\<lambda>a c. 10 * a + digit_val c) acc ds))"
  by (induction ds arbitrary: p acc) simp_all

lemma py_digits_repr_nat: "py_digits (repr_nat n) False 0 = Some n"
  using py_digits_run [OF repr_nat_digits, of n "[]" False 0]
    digits_value_repr_nat [of n] repr_nat_nonempty [of n]
  by (simp add: digits_value_def)

lemma digit_not_space: "is_digit c \<Longrightarrow> \<not> py_isspace c"
  by (auto simp: is_digit_def py_isspace_def)

lemma digit_not_sign: "is_digit c \<Longrightarrow> c \<noteq> CHR ''-'' \<and> c \<noteq> CHR ''+''"
  by (auto simp: is_digit_def)

lemma strip_id:
  assumes "s \<noteq> []" "\<not> py_isspace (hd s)" "\<not> py_isspace (last s)"
  shows "rev (dropWhile py_isspace (rev (dropWhile py_isspace s))) = s"
proof -
  have a: "dropWhile py_isspace s = s" using assms(1,2) by (cases s) simp_all
  have "dropWhile py_isspace (rev s) = rev s"
    using assms(1,3) by (cases "rev s") (simp_all add: hd_rev [symmetric])
  with a show ?thesis by simp
qed

lemma hd_repr_nat_digit: "is_digit (hd (repr_nat n))"
  using repr_nat_digits [of n] repr_nat_nonempty [of n] by (cases "repr_nat n") simp_all

lemma last_repr_nat_digit: "is_digit (last (repr_nat n))"
  using repr_nat_digits [of n] repr_nat_nonempty [of n]
  by (metis last_in_set list_all_iff)

lemma py_int_repr_int: "py_int (repr_int i) = Inr i"
proof (cases "i < 0")
  case True
  let ?s = "CHR ''-'' # repr_nat (nat (- i))"
  have "rev (dropWhile py_isspace (rev (dropWhile py_isspace ?s))) = ?s"
    using last_repr_nat_digit [of "nat (- i)"] repr_nat_nonempty [of "nat (- i)"]
    by (intro strip_id) (auto simp: py_isspace_def dest: digit_not_space)
  with True show ?thesis
    by (simp add: py_int_def repr_int_def py_digits_repr_nat)
next
  case False
  let ?s = "repr_nat (nat i)"
  have st: "rev (dropWhile py_isspace (rev (dropWhile py_isspace ?s))) = ?s"
    using hd_repr_nat_digit [of "nat i"] last_repr_nat_digit [of "nat i"] repr_nat_nonempty [of "nat i"]
    by (intro strip_id) (auto dest: digit_not_space)
  obtain c cs where cs: "?s = c # cs" using repr_nat_nonempty [of "nat i"] by (cases ?s) auto
  then have "is_digit c" using hd_repr_nat_digit [of "nat i"] by simp
  then have "c \<noteq> CHR ''-''" "c \<noteq> CHR ''+''" using digit_not_sign by auto
  with False st cs py_digits_repr_nat [of "nat i"] show ?thesis
    by (simp add: py_int_def repr_int_def)
qed


lemma store_then_get:
  assumes "encode data = Inr b"
  shows "\<exists>key w'. store self data w = (Inr (PyStr key), w')
           \<and> fst (get self key None w') = Inr (PyBytes b)"
  by (simp add: store_result [OF assms] get_def redis_get_def)

lemma store_then_get_str:
  assumes "valid_utf8 (map of_char s)"
  shows "\<exists>key w'. store self (PyStr s) w = (Inr (PyStr key), w')
           \<and> fst (get_str self key w') = Inr (PyStr s)"
  using assms by (simp add: store_result [of "PyStr s" s] get_str_def get_def redis_get_def decode_def)

lemma store_then_get_int:
  "\<exists>key w'. store self (PyInt n) w = (Inr (PyStr key), w')
           \<and> fst (get_int self key w') = Inr (PyInt n)"
  by (simp add: store_result [of "PyInt n" "repr_int n"] get_int_def get_def redis_get_def
      py_int_repr_int)

lemma instrumented_eq:
  "instrumented rp = Inr (Function ''Cache.store'' (instrumented_call rp))"
  by (simp add: instrumented_def instrumented_call_def store_function_def)

lemma count_calls_wrapper_run:
  assumes "redis_incr key w = (Inr n, w1)"
  shows "count_calls_wrapper key f self args kw w = f self args kw w1"
  using assms by (simp add: count_calls_wrapper_def)

lemma call_history_wrapper_run:
  assumes "redis_rpush (key @ '':inputs'') (PyStr (str_tuple rp args)) w = (Inr n1, w1)"
      and "f self args kw w1 = (Inr out, w2)"
      and "redis_rpush (key @ '':outputs'') (PyStr (py_str rp out)) w2 = (Inr n2, w3)"
  shows "call_history_wrapper rp key f self args kw w = (Inr out, w3)"
  using assms by (simp add: call_history_wrapper_def)

lemma hd_repr_nat_nonzero: "0 < n \<Longrightarrow> hd (repr_nat n) \<noteq> CHR ''0''"
proof (induction n rule: repr_nat.induct)
  case (1 n)
  show ?case
  proof (cases "n < 10")
    case True
    with 1(2) have "digit_val (digit_char n) \<noteq> digit_val (CHR ''0'')"
      by (simp add: digit_val_digit_char) (simp add: digit_val_def)
    with True show ?thesis by (subst repr_nat.simps) auto
  next
    case False
    with 1 have "hd (repr_nat (n div 10)) \<noteq> CHR ''0''" by simp
    with False show ?thesis
      by (subst repr_nat.simps) (simp add: hd_append repr_nat_nonempty)
  qed
qed

lemma string2ll_repr_nat:
  assumes "0 < n" "n < 2 ^ 63"
  shows "string2ll (repr_nat n) = Some (int n)"
proof -
  obtain c cs where cs: "repr_nat n = c # cs"
    using repr_nat_nonempty [of n] by (cases "repr_nat n") auto
  have d: "is_digit c" using hd_repr_nat_digit [of n] cs by simp
  then have m: "c \<noteq> CHR ''-''" using digit_not_sign by auto
  have z: "c \<noteq> CHR ''0''" using hd_repr_nat_nonzero [OF assms(1)] cs by simp
  have v: "foldl (\<lambda>acc c. 10 * acc + digit_val c) 0 (c # cs) = n"
    using digits_value_repr_nat [of n] cs by (simp add: digits_value_def)
  have a: "list_all is_digit (c # cs)" using repr_nat_digits [of n] cs by simp
  have r: "int n < 2 ^ 63" using assms(2) by (metis of_nat_less_iff of_nat_numeral of_nat_power)
  show ?thesis
    unfolding string2ll_def cs using m z a v r
    by (simp add: Let_def del: foldl_Cons list.pred_inject)
qed


lemma redis_incr_counter:
  assumes "counter_is w m" "Suc m < 2 ^ 63"
  shows "redis_incr ''Cache.store'' w =
           (Inr (int (Suc m)),
            (sent (INCR ''Cache.store'') w)
              \<lparr>db := (db w)(''Cache.store'' \<mapsto> RString (repr_nat (Suc m)))\<rparr>)"
proof (cases "m = 0")
  case True
  with assms(1) show ?thesis
    by (simp add: counter_is_def redis_incr_def repr_int_def)
next
  case False
  then have p: "string2ll (repr_nat m) = Some (int m)"
    using assms(2) by (intro string2ll_repr_nat) simp_all
  have "int m \<noteq> 2 ^ 63 - 1"
  proof
    assume "int m = 2 ^ 63 - 1"
    then have "int (Suc m) = 2 ^ 63" by simp
    moreover have "int (Suc m) < 2 ^ 63"
      using assms(2) by (metis of_nat_less_iff of_nat_numeral of_nat_power)
    ultimately show False by simp
  qed
  moreover have "nat (int m + 1) = Suc m" by simp
  ultimately show ?thesis
    using False assms(1) p by (simp add: counter_is_def redis_incr_def repr_int_def)
qed

lemma uuid4_frame [simp]:
  "fst (uuid4 (w\<lparr>db := d\<rparr>)) = fst (uuid4 w)"
  "fst (uuid4 (sent c w)) = fst (uuid4 w)"
  by (simp_all add: uuid4_def Let_def)

lemma instrumented_call_step:
  assumes c: "counter_is w m" and b: "Suc m < 2 ^ 63"
    and i: "stored_list w ''Cache.store:inputs'' = Some ins"
    and o: "stored_list w ''Cache.store:outputs'' = Some outs"
    and e: "encode v = Inr enc"
  shows "instrumented_call rp self [v] [] w =
     (Inr (PyStr (str_uuid (fst (uuid4 w)))),
      w\<lparr>drawn := Suc (drawn w),
        trace := trace w @
          [RPUSH ''Cache.store:inputs'' (str_tuple rp [v]), INCR ''Cache.store'',
           SET (str_uuid (fst (uuid4 w))) enc,
           RPUSH ''Cache.store:outputs'' (str_uuid (fst (uuid4 w)))],
        db := (db w)
          (''Cache.store:inputs'' \<mapsto> RList (ins @ [str_tuple rp [v]]),
           ''Cache.store'' \<mapsto> RString (repr_nat (Suc m)),
           str_uuid (fst (uuid4 w)) \<mapsto> RString enc,
           ''Cache.store:outputs'' \<mapsto> RList (outs @ [str_uuid (fst (uuid4 w))]))\<rparr>)"
proof -
  let ?k = "str_uuid (fst (uuid4 w))"
  let ?w1 = "(sent (RPUSH ''Cache.store:inputs'' (str_tuple rp [v])) w)
               \<lparr>db := (db w)(''Cache.store:inputs'' \<mapsto> RList (ins @ [str_tuple rp [v]]))\<rparr>"
  let ?w2 = "(sent (INCR ''Cache.store'') ?w1)
               \<lparr>db := (db ?w1)(''Cache.store'' \<mapsto> RString (repr_nat (Suc m)))\<rparr>"
  let ?w3 = "?w2\<lparr>drawn := Suc (drawn ?w2), trace := trace ?w2 @ [SET ?k enc],
               db := (db ?w2)(?k \<mapsto> RString enc)\<rparr>"
  have k: "?k \<noteq> ''Cache.store''" "?k \<noteq> ''Cache.store:inputs''" "?k \<noteq> ''Cache.store:outputs''"
    by (simp_all add: str_uuid_neq)
  have s1: "redis_rpush (''Cache.store'' @ '':inputs'') (PyStr (str_tuple rp [v])) w
              = (Inr (int (length ins) + 1), ?w1)"
    using redis_rpush_list [OF i] by simp
  have c1: "counter_is ?w1 m" using c by (simp add: counter_is_def)
  have s2: "redis_incr ''Cache.store'' ?w1 = (Inr (int (Suc m)), ?w2)"
    by (rule redis_incr_counter [OF c1 b])
  have "store self v ?w2 = (Inr (PyStr ?k), ?w3)"
    by (simp add: store_result [OF e])
  then have s3: "store_apply self [v] [] ?w2 = (Inr (PyStr ?k), ?w3)"
    by (simp add: store_apply_def bind_data_def)
  have o3: "stored_list ?w3 ''Cache.store:outputs'' = Some outs"
    using o k by (simp add: stored_list_def)
  have s4: "redis_rpush (''Cache.store'' @ '':outputs'') (PyStr (py_str rp (PyStr ?k))) ?w3 =
              (Inr (int (length outs) + 1),
               (sent (RPUSH ''Cache.store:outputs'' ?k) ?w3)
                 \<lparr>db := (db ?w3)(''Cache.store:outputs'' \<mapsto> RList (outs @ [?k]))\<rparr>)"
    using redis_rpush_list [OF o3] by (simp add: py_str_def)
  have m: "count_calls_wrapper ''Cache.store'' store_apply self [v] [] ?w1 = (Inr (PyStr ?k), ?w3)"
    using count_calls_wrapper_run [where f = store_apply, OF s2] s3 by simp
  have "instrumented_call rp self [v] [] w =
          (Inr (PyStr ?k),
           (sent (RPUSH ''Cache.store:outputs'' ?k) ?w3)
             \<lparr>db := (db ?w3)(''Cache.store:outputs'' \<mapsto> RList (outs @ [?k]))\<rparr>)"
    unfolding instrumented_call_def
    by (rule call_history_wrapper_run
        [where f = "count_calls_wrapper ''Cache.store'' store_apply", OF s1 m s4])
  then show ?thesis
    by (simp add: sent_def)
qed


lemma run_calls_instrumented:
  assumes "counter_is w m" "m + length vs < 2 ^ 63"
      and "stored_list w ''Cache.store:inputs'' = Some ins"
      and "stored_list w ''Cache.store:outputs'' = Some outs"
      and "PyNone \<notin> set vs"
  shows "\<exists>keys w'.
           run_calls (instrumented_call rp) self vs w = (map (\<lambda>k. Inr (PyStr k)) keys, w')
         \<and> length keys = length vs
         \<and> counter_is w' (m + length vs)
         \<and> stored_list w' ''Cache.store:inputs'' = Some (ins @ map (\<lambda>v. str_tuple rp [v]) vs)
         \<and> stored_list w' ''Cache.store:outputs'' = Some (outs @ keys)"
  using assms
proof (induction vs arbitrary: w m ins outs)
  case Nil
  then show ?case by simp
next
  case (Cons v vs)
  let ?k = "str_uuid (fst (uuid4 w))"
  from Cons.prems(5) obtain enc where e: "encode v = Inr enc"
    using encode_scalar [of v] by auto
  have b: "Suc m < 2 ^ 63" using Cons.prems(2) by simp
  have k: "?k \<noteq> ''Cache.store''" "?k \<noteq> ''Cache.store:inputs''" "?k \<noteq> ''Cache.store:outputs''"
    by (simp_all add: str_uuid_neq)
  obtain w1 where
    step: "instrumented_call rp self [v] [] w = (Inr (PyStr ?k), w1)"
    and d1: "db w1 = (db w)
          (''Cache.store:inputs'' \<mapsto> RList (ins @ [str_tuple rp [v]]),
           ''Cache.store'' \<mapsto> RString (repr_nat (Suc m)),
           ?k \<mapsto> RString enc,
           ''Cache.store:outputs'' \<mapsto> RList (outs @ [?k]))"
    using instrumented_call_step [OF Cons.prems(1) b Cons.prems(3) Cons.prems(4) e, of rp self]
    by simp
  have c1: "counter_is w1 (Suc m)" using k by (simp add: counter_is_def d1)
  have i1: "stored_list w1 ''Cache.store:inputs'' = Some (ins @ [str_tuple rp [v]])"
    using k by (simp add: stored_list_def d1)
  have o1: "stored_list w1 ''Cache.store:outputs'' = Some (outs @ [?k])"
    by (simp add: stored_list_def d1)
  have n1: "Suc m + length vs < 2 ^ 63" using Cons.prems(2) by simp
  have p1: "PyNone \<notin> set vs" using Cons.prems(5) by simp
  from Cons.IH [OF c1 n1 i1 o1 p1] obtain keys w' where
    r: "run_calls (instrumented_call rp) self vs w1 = (map (\<lambda>k. Inr (PyStr k)) keys, w')"
    and l: "length keys = length vs"
    and c: "counter_is w' (Suc m + length vs)"
    and i: "stored_list w' ''Cache.store:inputs''
              = Some ((ins @ [str_tuple rp [v]]) @ map (\<lambda>v. str_tuple rp [v]) vs)"
    and o: "stored_list w' ''Cache.store:outputs'' = Some ((outs @ [?k]) @ keys)"
    by blast
  have "run_calls (instrumented_call rp) self (v # vs) w
          = (map (\<lambda>k. Inr (PyStr k)) (?k # keys), w')"
    by (simp add: step r)
  with l c i o show ?case
    by (intro exI [of _ "?k # keys"] exI [of _ w']) simp
qed

lemma instrumented_after_calls:
  assumes "db w = Map.empty" "length vs < 2 ^ 63" "PyNone \<notin> set vs"
  shows "\<exists>keys w'.
           run_calls (instrumented_call rp) self vs w = (map (\<lambda>k. Inr (PyStr k)) keys, w')
         \<and> length keys = length vs
         \<and> counter_is w' (length vs)
         \<and> stored_list w' ''Cache.store:inputs'' = Some (map (\<lambda>v. str_tuple rp [v]) vs)
         \<and> stored_list w' ''Cache.store:outputs'' = Some keys"
proof -
  have c: "counter_is w 0" using assms(1) by (simp add: counter_is_def)
  have i: "stored_list w ''Cache.store:inputs'' = Some []"
    using assms(1) by (simp add: stored_list_def)
  have o: "stored_list w ''Cache.store:outputs'' = Some []"
    using assms(1) by (simp add: stored_list_def)
  have n: "0 + length vs < 2 ^ 63" using assms(2) by simp
  from run_calls_instrumented [OF c n i o assms(3), of rp self] show ?thesis by simp
qed


section \<open>The claims\<close>

text \<open>
  C1. The claim: reading back the key that \<^verbatim>\<open>store(v)\<close> returns gives \<open>v\<close> again, up
  to the representation of the store. The function \<^verbatim>\<open>store\<close> does that (lemmas
  \<open>store_then_get\<close>, \<open>store_then_get_str\<close>, \<open>store_then_get_int\<close>). The class as it
  is declared does not: its attribute \<^verbatim>\<open>store\<close> is the \<^verbatim>\<open>partial\<close> object left by
  \<^verbatim>\<open>@functools.wraps\<close> on line 12, and calling it with \<^verbatim>\<open>"foo"\<close> or with \<^verbatim>\<open>42\<close>
  raises \<^verbatim>\<open>AttributeError\<close> and leaves the world as it was, with no key to read back.
\<close>

theorem Cache_store_call_raises:
  "call_attr Cache_store self [PyStr ''foo''] w = (Inl AttributeError, w)
   \<and> call_attr Cache_store self [PyInt 42] w = (Inl AttributeError, w)"
  by (simp add: Cache_store_def functools_wraps_def)

text \<open>
  C2. The claim: \<^verbatim>\<open>Cache.store\<close> draws a UUID key, writes the value under it as its one
  write and returns the key. The function \<^verbatim>\<open>store\<close> does that (lemma \<open>store_result\<close>).
  The attribute the class declares does not: whatever the positional arguments, calling
  it ends in an exception and changes nothing, so no key is drawn and nothing is written.
\<close>

theorem Cache_store_writes_nothing:
  "isl (fst (call_attr Cache_store self args w)) \<and> snd (call_attr Cache_store self args w) = w"
  by (simp add: Cache_store_def functools_wraps_def)

text \<open>
  C3. For a key absent from the store, \<^verbatim>\<open>get\<close> returns \<^verbatim>\<open>None\<close> whatever converter is
  supplied, and the converter is not applied: the only effect is the \<^verbatim>\<open>GET\<close> sent to the
  server. The same holds for \<^verbatim>\<open>get_str\<close> and \<^verbatim>\<open>get_int\<close>.
\<close>

theorem get_miss:
  assumes "db w key = None"
  shows "get self key fn w = (Inr PyNone, sent (GET key) w)
       \<and> get_str self key w = (Inr PyNone, sent (GET key) w)
       \<and> get_int self key w = (Inr PyNone, sent (GET key) w)"
  using assms by (simp add: get_def get_str_def get_int_def redis_get_def)

theorem get_miss_witness:
  "db world0 ''missing'' = None
   \<and> get \<lparr>redis = Redis\<rparr> ''missing'' (Some (\<lambda>d w. (Inl ValueError, print d w))) world0 =
       (Inr PyNone, sent (GET ''missing'') world0)"
  using get_miss [of world0 "''missing''" "\<lparr>redis = Redis\<rparr>"
      "Some (\<lambda>d w. (Inl ValueError, print d w))"]
  by (simp add: world0_def)

text \<open>
  C4. The claim: after n calls of the instrumented \<^verbatim>\<open>store\<close> its counter reads n. The
  decorators applied to the function \<^verbatim>\<open>store\<close> achieve that (lemma
  \<open>instrumented_after_calls\<close>). In the module the first assignment,
  \<^verbatim>\<open>Cache.store = count_calls(Cache.store)\<close>, raises \<^verbatim>\<open>AttributeError\<close>: the declared
  attribute has no \<^verbatim>\<open>__qualname__\<close>, so no counting wrapper and no counter come to exist.
\<close>

theorem count_calls_Cache_store_raises:
  "qualname Cache_store = Inl AttributeError \<and> count_calls Cache_store = Inl AttributeError"
  by (simp add: Cache_store_def functools_wraps_def)

text \<open>
  C5. The claim: after n calls of the instrumented \<^verbatim>\<open>store\<close> both logs have length n
  and the k-th output entry is the text of the k-th result. The decorators applied to the
  function \<^verbatim>\<open>store\<close> achieve that (lemma \<open>instrumented_after_calls\<close>). In the module,
  \<^verbatim>\<open>call_history\<close> applied to the declared attribute \<^verbatim>\<open>store\<close> raises
  \<^verbatim>\<open>AttributeError\<close>: no wrapper that keeps the two logs is built for it.
\<close>

theorem call_history_Cache_store_raises:
  "call_history rp Cache_store = Inl AttributeError"
  by (simp add: Cache_store_def functools_wraps_def)

text \<open>
  C6. The claim: a call of the instrumented \<^verbatim>\<open>store\<close> appends to the inputs log,
  increments the counter, runs the method and appends to the outputs log, in this order.
  The decorators applied to the function \<^verbatim>\<open>store\<close> achieve that (the trace in lemma
  \<open>instrumented_call_step\<close>). Loading the module stops with \<^verbatim>\<open>AttributeError\<close> at the
  two assignments that were to instrument \<^verbatim>\<open>store\<close>: no instrumented method is bound.
\<close>

theorem exercise_module_raises:
  "exercise_module rp = Inl AttributeError"
  by (simp add: exercise_module_def Cache_store_def functools_wraps_def)

text \<open>
  C7. For a method with \<^verbatim>\<open>__qualname__\<close> \<open>key\<close> whose two logs hold well-formed UTF-8,
  \<^verbatim>\<open>replay\<close> returns normally and prints the line with the call count, then one line
  per pair of the two logs taken position by position, the n-th input with the n-th
  output. The number of these lines is the smaller of the two lengths. With no recorded
  input it prints the count 0 and nothing else. The keyspace is left as it was.
\<close>

theorem replay_transcript:
  assumes "stored_list w (key @ '':inputs'') = Some ins"
      and "stored_list w (key @ '':outputs'') = Some outs"
      and "\<forall>p \<in> set (zip ins outs).
             valid_utf8 (map of_char (fst p)) \<and> valid_utf8 (map of_char (snd p))"
  shows "\<exists>lines.
           fst (replay (Function key f) w) = Inr ()
         \<and> stdout (snd (replay (Function key f) w)) =
             stdout w @ (key @ '' was called '' @ repr_nat (length ins) @ '' times:'') # lines
         \<and> lines = map (\<lambda>(i, out). key @ ''(*'' @ i @ '') -> '' @ out) (zip ins outs)
         \<and> length lines = min (length ins) (length outs)
         \<and> (ins = [] \<longrightarrow>
              stdout (snd (replay (Function key f) w)) = stdout w @ [key @ '' was called 0 times:''])
         \<and> db (snd (replay (Function key f) w)) = db w"
  using assms
  by (simp add: replay_result replay_stdout replay_db printed_valid repr_nat_0 del: replay.simps)

theorem replay_transcript_witness:
  "stored_list world_logged ''Cache.store:inputs'' = Some [''(1,)'', ''(2,)'']
   \<and> stored_list world_logged ''Cache.store:outputs'' = Some [''k1'']
   \<and> stdout (snd (replay (Function ''Cache.store'' idle_method) world_logged)) =
       [''Cache.store was called 2 times:'', ''Cache.store(*(1,)) -> k1'']"
proof -
  have i: "stored_list world_logged (''Cache.store'' @ '':inputs'') = Some [''(1,)'', ''(2,)'']"
    by (simp add: stored_list_def world_logged_def)
  have o: "stored_list world_logged (''Cache.store'' @ '':outputs'') = Some [''k1'']"
    by (simp add: stored_list_def world_logged_def)
  have v: "\<forall>p \<in> set (zip [''(1,)'', ''(2,)''] [''k1'']).
             valid_utf8 (map of_char (fst p)) \<and> valid_utf8 (map of_char (snd p))"
    by code_simp
  have s: "stdout world_logged = []" by (simp add: world_logged_def)
  from replay_transcript [OF i o v, of idle_method] i o show ?thesis
    by (auto simp: repr_nat_2 s simp del: replay.simps)
qed

text \<open>
  C8. Constructing a \<^verbatim>\<open>Cache\<close> succeeds, sends one \<^verbatim>\<open>FLUSHDB\<close> and leaves the keyspace
  empty, whatever it held; nothing else in the world changes, and every \<^verbatim>\<open>get\<close> that
  follows at once finds its key absent.
\<close>

theorem Cache_init_flushes:
  "Cache_init w = (Inr \<lparr>redis = Redis\<rparr>, w\<lparr>db := Map.empty, trace := trace w @ [FLUSHDB]\<rparr>)
   \<and> dom (db (snd (Cache_init w))) = {}
   \<and> (\<forall>self key fn. fst (get self key fn (snd (Cache_init w))) = Inr PyNone)"
  by (simp add: Cache_init_def redis_flushdb_def sent_def get_def redis_get_def)

text \<open>
  C9. The count in the first line \<^verbatim>\<open>replay\<close> prints is the length of the inputs log.
  It is not read from the counter: whatever is put under the counter key \<open>key\<close>, also
  nothing, the output is the same. The line shows the number n exactly when n is the
  length of the inputs log, so it agrees with a counter only when the counter holds that
  length.
\<close>

theorem replay_count_is_inputs_length:
  assumes "stored_list w (key @ '':inputs'') = Some ins"
      and "stored_list w (key @ '':outputs'') = Some outs"
  shows "(\<exists>lines. stdout (snd (replay (Function key f) w)) =
             stdout w @ (key @ '' was called '' @ repr_nat (length ins) @ '' times:'') # lines)
       \<and> (\<forall>c. stdout (snd (replay (Function key f) (w\<lparr>db := (db w)(key := c)\<rparr>))) =
                stdout (snd (replay (Function key f) w)))
       \<and> (\<forall>n. hd (drop (length (stdout w)) (stdout (snd (replay (Function key f) w)))) =
                  key @ '' was called '' @ repr_nat n @ '' times:'' \<longleftrightarrow> n = length ins)"
proof -
  have a: "stored_list (w\<lparr>db := (db w)(key := c)\<rparr>) (key @ '':inputs'') = Some ins" for c
    using assms(1) by (simp add: stored_list_def)
  have b: "stored_list (w\<lparr>db := (db w)(key := c)\<rparr>) (key @ '':outputs'') = Some outs" for c
    using assms(2) by (simp add: stored_list_def)
  show ?thesis
    by (auto simp: replay_stdout [OF assms] replay_stdout [OF a b] repr_nat_inj
        simp del: replay.simps)
qed

theorem replay_count_witness:
  "stored_list world_logged ''Cache.store:inputs'' = Some [''(1,)'', ''(2,)'']
   \<and> stored_list world_logged ''Cache.store:outputs'' = Some [''k1'']
   \<and> db world_logged ''Cache.store'' = Some (RString ''5'')
   \<and> hd (stdout (snd (replay (Function ''Cache.store'' idle_method) world_logged))) =
       ''Cache.store was called 2 times:''"
proof -
  have i: "stored_list world_logged (''Cache.store'' @ '':inputs'') = Some [''(1,)'', ''(2,)'']"
    by (simp add: stored_list_def world_logged_def)
  have o: "stored_list world_logged (''Cache.store'' @ '':outputs'') = Some [''k1'']"
    by (simp add: stored_list_def world_logged_def)
  have s: "stdout world_logged = []" by (simp add: world_logged_def)
  have c: "db world_logged ''Cache.store'' = Some (RString ''5'')"
    by (simp add: world_logged_def)
  from replay_count_is_inputs_length [OF i o, of idle_method] i o c show ?thesis
    by (auto simp: repr_nat_2 s simp del: replay.simps)
qed

text \<open>
  C10. For a method with \<^verbatim>\<open>__qualname__\<close> \<open>key\<close> whose inputs log can be appended to,
  the wrapper of \<^verbatim>\<open>call_history\<close> appends \<^verbatim>\<open>str(args)\<close> to that log, a text in which the
  keyword arguments do not occur, and then calls the method with the same \<^verbatim>\<open>self\<close>,
  positional and keyword arguments. The world in which the method starts is the same for
  every choice of keyword arguments.
\<close>

theorem call_history_keywords:
  assumes "stored_list w (key @ '':inputs'') = Some ins"
  shows "\<exists>w1. call_history rp (Function key method)
              = Inr (Function key (call_history_wrapper rp key method))
     \<and> w1 = (sent (RPUSH (key @ '':inputs'') (str_tuple rp args)) w)
              \<lparr>db := (db w)(key @ '':inputs'' \<mapsto> RList (ins @ [str_tuple rp args]))\<rparr>
     \<and> (\<forall>kw. call_history_wrapper rp key method self args kw w =
        (case method self args kw w1 of
           (Inl e, w2) \<Rightarrow> (Inl e, w2)
         | (Inr output, w2) \<Rightarrow>
             (case redis_rpush (key @ '':outputs'') (PyStr (py_str rp output)) w2 of
                (Inl e, w3) \<Rightarrow> (Inl e, w3)
              | (Inr _, w3) \<Rightarrow> (Inr output, w3))))"
  by (simp add: call_history_wrapper_def redis_rpush_list [OF assms])

theorem call_history_keywords_witness:
  "stored_list world0 ''Cache.store:inputs'' = Some []
   \<and> db (snd (call_history_wrapper (\<lambda>v. ''?'') ''Cache.store'' idle_method
               \<lparr>redis = Redis\<rparr> [] [(''data'', PyInt 7)] world0)) ''Cache.store:inputs''
       = Some (RList [''()''])"
proof -
  have i: "stored_list world0 (''Cache.store'' @ '':inputs'') = Some []"
    by (simp add: stored_list_def world0_def)
  from call_history_keywords [OF i, of "\<lambda>v. ''?''" idle_method "[]" "\<lparr>redis = Redis\<rparr>"] i
  show ?thesis
    by (simp add: idle_method_def str_tuple_def redis_rpush_def world0_def)
qed

end
